theory Spec2Isabelle
  imports Main "HOL-Library.AList" "HOL-Library.Char_ord" "HOL-Library.List_Lexorder"
    "HOL-Library.Sublist"
begin

section \<open>JavaScript values and helpers\<close>

text \<open>
  Strings are \<open>string\<close>; the credential names and the two failure messages the code
  compares against are ASCII. A plain JavaScript object whose keys are not array indices
  keeps its keys in insertion order, so it is an association list: \<open>obj[k] = v\<close> is
  \<open>AList.update k v obj\<close> (an existing key keeps its place, a new one goes last),
  \<open>Object.keys(obj)\<close> is \<open>map fst obj\<close> and \<open>obj[k]\<close> is \<open>map_of obj k\<close>
  (\<open>None\<close> for \<open>undefined\<close>).
\<close>

type_synonym 'v js_object = "(string \<times> 'v) list"

definition Object_keys :: "'v js_object \<Rightarrow> string list" where
  "Object_keys obj = map fst obj"

text \<open>\<open>String.prototype.toLowerCase\<close> on the ASCII letters.\<close>

definition lower_char :: "char \<Rightarrow> char" where
  "lower_char c =
     (let n = (of_char c :: nat) in if 65 \<le> n \<and> n \<le> 90 then char_of (n + 32) else c)"

definition toLowerCase :: "string \<Rightarrow> string" where
  "toLowerCase s = map lower_char s"

text \<open>The decimal text of an integer, as \<open>n + " minutes"\<close> and a template string print it.\<close>

fun digits :: "nat \<Rightarrow> string" where
  "digits n =
     (if n < 10 then [char_of (48 + n)] else digits (n div 10) @ [char_of (48 + n mod 10)])"

declare digits.simps [simp del]

definition Number_toString :: "int \<Rightarrow> string" where
  "Number_toString i = (if i < 0 then CHR ''-'' # digits (nat (- i)) else digits (nat i))"

text \<open>
  What the handlers receive from the transport (\<open>request\<close> of \<open>src/common/utils\<close>, an axios
  call): the promise resolves to a response whose \<open>data\<close> is the GraphQL payload, or
  rejects with an error. Of the payload the code reads \<open>errors\<close> (absent, or a list of
  objects with \<open>type\<close> and \<open>message\<close>), \<open>data.rateLimit.remaining\<close>,
  \<open>data.rateLimit.resetAt\<close> and, on a rejection, \<open>message\<close>. \<open>resetAt\<close> is kept as
  the millisecond timestamp \<open>new Date(resetAt)\<close> parses it to (\<open>None\<close> for an absent or
  unparsable value, the Invalid Date).
\<close>

record graphql_error =
  error_type :: "string option"
  error_message :: "string option"

record rate_limit =
  rl_remaining :: "int option"
  rl_resetAt :: "int option"

record graphql_data =
  rateLimit :: "rate_limit option"

record response_data =
  rd_message :: "string option"
  rd_errors :: "graphql_error list option"
  rd_data :: "graphql_data option"

text \<open>
  A thrown value: \<open>err.message\<close> and \<open>err.response?.data\<close>. A \<open>TypeError\<close> raised by
  the code itself has no \<open>response\<close>.
\<close>

datatype js_error = JsError (err_message: string) (err_response_data: "response_data option")

definition TypeError :: "string \<Rightarrow> js_error" where
  "TypeError msg = JsError msg None"

datatype fetch_result = Resolved response_data | Rejected js_error

text \<open>
  A fetcher is called with the variables and a token and answers from a world \<open>'w\<close> that it
  may change (the network, the upstream quota). \<open>process.env[pat]\<close> is a string for every
  key of \<open>process.env\<close>; it is passed as the lookup's result.
\<close>

type_synonym variables = "string js_object"
type_synonym token = "string option"
type_synonym 'w fetcher = "variables \<Rightarrow> token \<Rightarrow> 'w \<Rightarrow> fetch_result \<times> 'w"

text \<open>A template string prints \<open>undefined\<close> for a missing value.\<close>

definition template_token :: "token \<Rightarrow> string" where
  "template_token t = (case t of None \<Rightarrow> ''undefined'' | Some s \<Rightarrow> s)"

text \<open>
  A recording fetcher, as a test's mock would be: it answers as the fetcher it wraps and
  appends the token of every call to a log kept beside the world.
\<close>

definition logged :: "'w fetcher \<Rightarrow> ('w \<times> token list) fetcher" where
  "logged fetcher variables tok =
     (\<lambda>(w, calls). case fetcher variables tok w of (r, w') \<Rightarrow> (r, (w', calls @ [tok])))"

section \<open>The HTTP response of a Netlify function\<close>

record ShieldsResponse =
  schemaVersion :: nat
  label :: string
  message :: string
  color :: string
  isError :: bool

datatype detail =
    Detail_error "string option" "string option"
  | Detail_exhausted int string
  | Detail_valid "int option"
  | Detail_expired
  | Detail_suspended

fun status :: "detail \<Rightarrow> string" where
  "status (Detail_error t m) = ''error''"
| "status (Detail_exhausted r i) = ''exhausted''"
| "status (Detail_valid r) = ''valid''"
| "status Detail_expired = ''expired''"
| "status Detail_suspended = ''suspended''"

record PATInfo =
  validPATs :: "string list"
  expiredPATs :: "string list"
  exhaustedPATs :: "string list"
  suspendedPATs :: "string list"
  errorPATs :: "string list"
  details :: "detail js_object"

text \<open>
  The body is kept as the value that is serialised: \<open>JSON.stringify\<close> of the report, of the
  badge or of \<open>{ up }\<close>, or a plain text.
\<close>

datatype http_body =
    Body_text string
  | Body_PATInfo PATInfo
  | Body_shields ShieldsResponse
  | Body_up bool

record http_response =
  statusCode :: nat
  headers :: "string js_object"
  body :: http_body

section \<open>The PAT-info function (\<open>netlify/functions/status/pat-info.js\<close>)\<close>

definition pat_info_RATE_LIMIT_SECONDS :: int where
  "pat_info_RATE_LIMIT_SECONDS = 60 * 5"

text \<open>
  \<open>request\<close> is the transport of \<open>src/common/utils\<close>; it is a parameter, given the value
  of the \<open>Authorization\<close> header (the query is a constant).
\<close>

definition pat_info_uptimeFetcher ::
  "(variables \<Rightarrow> string \<Rightarrow> 'w \<Rightarrow> fetch_result \<times> 'w) \<Rightarrow> 'w fetcher" where
  "pat_info_uptimeFetcher request variables tok =
     request variables (''bearer '' @ template_token tok)"

text \<open>
  \<open>/PAT_\d*$/.exec(key)\<close> finds a match exactly when the key ends with \<open>PAT_\<close> followed
  by decimal digits only: as \<open>_\<close> is no digit, these are all the digits the key ends
  with.
\<close>

definition is_digit :: "char \<Rightarrow> bool" where
  "is_digit c = (let n = (of_char c :: nat) in 48 \<le> n \<and> n \<le> 57)"

definition matches_PAT :: "string \<Rightarrow> bool" where
  "matches_PAT key = (take 4 (dropWhile is_digit (rev key)) = rev ''PAT_'')"

definition getAllPATs :: "string js_object \<Rightarrow> string list" where
  "getAllPATs process_env = filter matches_PAT (Object_keys process_env)"

text \<open>Integer division that truncates towards zero.\<close>

definition truncate_div :: "int \<Rightarrow> int \<Rightarrow> int" where
  "truncate_div a b = sgn a * sgn b * (\<bar>a\<bar> div \<bar>b\<bar>)"

text \<open>
  Modelled from the spec: \<open>dateDiff\<close> of \<open>src/common/utils\<close>, which is not among the
  sources. The spec gives the minutes until reset as the reset timestamp minus the current
  time, in truncated integer minutes. Both dates are millisecond timestamps; a date that is
  the Invalid Date gives \<open>NaN\<close>, here \<open>None\<close>.
\<close>

definition dateDiff :: "int option \<Rightarrow> int option \<Rightarrow> int option" where
  "dateDiff d1 d2 =
     (case (d1, d2) of
        (Some t1, Some t2) \<Rightarrow> Some (truncate_div (t1 - t2) (1000 * 60))
      | _ \<Rightarrow> None)"

text \<open>The text of a number that may be \<open>NaN\<close>.\<close>

definition number_text :: "int option \<Rightarrow> string" where
  "number_text n = (case n of None \<Rightarrow> ''NaN'' | Some i \<Rightarrow> Number_toString i)"

text \<open>
  The body of the \<open>try\<close> block after the fetcher has answered (lines 71--101). Reading a
  property of \<open>undefined\<close> throws a \<open>TypeError\<close>: \<open>errors[0].type\<close> when \<open>errors\<close> is
  an empty list, \<open>response.data.data.rateLimit.remaining\<close> when \<open>data\<close> or
  \<open>rateLimit\<close> is missing. \<open>date1\<close> is the current time.
\<close>

definition errorType_of :: "graphql_error list option \<Rightarrow> string option" where
  "errorType_of errors = (case errors of Some (e # es) \<Rightarrow> error_type e | _ \<Rightarrow> None)"

definition rateLimit_of :: "response_data \<Rightarrow> rate_limit option" where
  "rateLimit_of d = (case rd_data d of None \<Rightarrow> None | Some g \<Rightarrow> rateLimit g)"

definition remaining_of :: "response_data \<Rightarrow> int option" where
  "remaining_of d = (case rateLimit_of d of None \<Rightarrow> None | Some rl \<Rightarrow> rl_remaining rl)"

definition resetAt_of :: "response_data \<Rightarrow> int option" where
  "resetAt_of d = (case rateLimit_of d of None \<Rightarrow> None | Some rl \<Rightarrow> rl_resetAt rl)"

definition try_block :: "response_data \<Rightarrow> int \<Rightarrow> js_error + detail" where
  "try_block response_data date1 =
     (let errors = rd_errors response_data;
          hasErrors = (errors \<noteq> None);
          errorType = errorType_of errors;
          isRateLimited =
            ((hasErrors \<and> errorType = Some ''RATE_LIMITED'') \<or>
             remaining_of response_data = Some 0)
      in if hasErrors \<and> errorType \<noteq> Some ''RATE_LIMITED'' then
           (case errors of
              Some (e # es) \<Rightarrow> Inr (Detail_error (error_type e) (error_message e))
            | _ \<Rightarrow> Inl (TypeError ''Cannot read properties of undefined (reading 'type')''))
         else if isRateLimited then
           (let date2 = resetAt_of response_data
            in Inr (Detail_exhausted 0
                 (number_text (dateDiff date2 (Some date1)) @ '' minutes'')))
         else
           (case rd_data response_data of
              None \<Rightarrow>
                Inl (TypeError ''Cannot read properties of undefined (reading 'rateLimit')'')
            | Some g \<Rightarrow>
                (case rateLimit g of
                   None \<Rightarrow>
                     Inl (TypeError
                       ''Cannot read properties of undefined (reading 'remaining')'')
                 | Some rl \<Rightarrow> Inr (Detail_valid (rl_remaining rl)))))"

text \<open>The \<open>catch\<close> block (lines 102--117): a status for the credential, or the error again.\<close>

definition errorMessage_of :: "js_error \<Rightarrow> string option" where
  "errorMessage_of err =
     (case err_response_data err of
        None \<Rightarrow> None
      | Some d \<Rightarrow> map_option toLowerCase (rd_message d))"

definition catch_block :: "js_error \<Rightarrow> js_error + detail" where
  "catch_block err =
     (let errorMessage = errorMessage_of err
      in if errorMessage = Some ''bad credentials'' then Inr Detail_expired
         else if errorMessage = Some ''sorry. your account was suspended.''
         then Inr Detail_suspended
         else Inl err)"

text \<open>
  One turn of the \<open>for\<close> loop for the credential \<open>pat\<close>: the fetcher is awaited, the
  \<open>try\<close> block classifies its answer, and whatever was thrown goes through the \<open>catch\<close>
  block. \<open>Inl\<close> is the error that leaves \<open>getPATInfo\<close>.
\<close>

definition loop_body ::
  "('w \<Rightarrow> int) \<Rightarrow> string js_object \<Rightarrow> 'w fetcher \<Rightarrow> variables \<Rightarrow> string \<Rightarrow>
   detail js_object \<Rightarrow> 'w \<Rightarrow> (js_error + detail js_object) \<times> 'w" where
  "loop_body now process_env fetcher variables pat dets w =
     (case fetcher variables (map_of process_env pat) w of
        (res, w') \<Rightarrow>
          (let tried = (case res of
                          Rejected err \<Rightarrow> Inl err
                        | Resolved response_data \<Rightarrow> try_block response_data (now w'));
               outcome = (case tried of Inl err \<Rightarrow> catch_block err | Inr d \<Rightarrow> Inr d)
           in case outcome of
                Inl err \<Rightarrow> (Inl err, w')
              | Inr d \<Rightarrow> (Inr (AList.update pat d dets), w')))"

fun probe_loop ::
  "('w \<Rightarrow> int) \<Rightarrow> string js_object \<Rightarrow> 'w fetcher \<Rightarrow> variables \<Rightarrow> string list \<Rightarrow>
   detail js_object \<Rightarrow> 'w \<Rightarrow> (js_error + detail js_object) \<times> 'w" where
  "probe_loop now process_env fetcher variables [] dets w = (Inr dets, w)"
| "probe_loop now process_env fetcher variables (pat # PATs) dets w =
     (case loop_body now process_env fetcher variables pat dets w of
        (Inl err, w') \<Rightarrow> (Inl err, w')
      | (Inr dets', w') \<Rightarrow> probe_loop now process_env fetcher variables PATs dets' w')"

definition filterPATsByStatus :: "detail js_object \<Rightarrow> string \<Rightarrow> string list" where
  "filterPATsByStatus dets st =
     filter (\<lambda>pat. map_option status (map_of dets pat) = Some st) (Object_keys dets)"

text \<open>
  \<open>Object.keys(details).sort().reduce(...)\<close>: the default sort compares the keys as
  strings, code unit by code unit, which on \<open>string\<close> is the lexicographic order of the
  characters' codes. Every key comes from \<open>Object.keys(details)\<close>, so \<open>details[key]\<close>
  is never \<open>undefined\<close>.
\<close>

definition sortedDetails :: "detail js_object \<Rightarrow> detail js_object" where
  "sortedDetails dets =
     foldl (\<lambda>obj key. case map_of dets key of
                         Some d \<Rightarrow> AList.update key d obj
                       | None \<Rightarrow> obj)
       [] (sort (Object_keys dets))"

definition getPATInfo ::
  "('w \<Rightarrow> int) \<Rightarrow> string js_object \<Rightarrow> 'w fetcher \<Rightarrow> variables \<Rightarrow> 'w \<Rightarrow>
   (js_error + PATInfo) \<times> 'w" where
  "getPATInfo now process_env fetcher variables w =
     (let PATs = getAllPATs process_env
      in case probe_loop now process_env fetcher variables PATs [] w of
           (Inl err, w') \<Rightarrow> (Inl err, w')
         | (Inr dets, w') \<Rightarrow>
             (Inr \<lparr> validPATs = filterPATsByStatus dets ''valid'',
                    expiredPATs = filterPATsByStatus dets ''expired'',
                    exhaustedPATs = filterPATsByStatus dets ''exhausted'',
                    suspendedPATs = filterPATsByStatus dets ''suspended'',
                    errorPATs = filterPATsByStatus dets ''error'',
                    details = sortedDetails dets \<rparr>, w'))"

definition pat_info_handler ::
  "('w \<Rightarrow> int) \<Rightarrow> string js_object \<Rightarrow>
   (variables \<Rightarrow> string \<Rightarrow> 'w \<Rightarrow> fetch_result \<times> 'w) \<Rightarrow> 'w \<Rightarrow> http_response \<times> 'w" where
  "pat_info_handler now process_env request w =
     (case getPATInfo now process_env (pat_info_uptimeFetcher request) [] w of
        (Inr PATsInfo, w') \<Rightarrow>
          (\<lparr> statusCode = 200,
             headers = AList.update ''Cache-Control''
               (''max-age=0, s-maxage='' @ Number_toString pat_info_RATE_LIMIT_SECONDS)
               [(''Content-Type'', ''application/json'')],
             body = Body_PATInfo PATsInfo \<rparr>, w')
      | (Inl err, w') \<Rightarrow>
          (\<lparr> statusCode = 500,
             headers = [(''Content-Type'', ''text/plain''), (''Cache-Control'', ''no-store'')],
             body = Body_text (''Something went wrong: '' @ err_message err) \<rparr>, w'))"

section \<open>The uptime function\<close>

definition uptime_RATE_LIMIT_SECONDS :: int where
  "uptime_RATE_LIMIT_SECONDS = 60 * 5"

definition uptime_uptimeFetcher ::
  "(variables \<Rightarrow> string \<Rightarrow> 'w \<Rightarrow> fetch_result \<times> 'w) \<Rightarrow> 'w fetcher" where
  "uptime_uptimeFetcher request variables tok =
     request variables (''bearer '' @ template_token tok)"

definition shieldsUptimeBadge :: "bool \<Rightarrow> ShieldsResponse" where
  "shieldsUptimeBadge up =
     \<lparr> schemaVersion = 1,
       label = ''Public Instance'',
       message = (if up then ''up'' else ''down''),
       color = (if up then ''brightgreen'' else ''red''),
       isError = False \<rparr>"

text \<open>
  \<open>retryer\<close> is \<open>src/common/retryer\<close>, which is not among the sources: the handler takes
  it as a parameter. Called with a fetcher and the variables it returns a value or throws.
\<close>

type_synonym ('w, 'r) retryer = "'w fetcher \<Rightarrow> variables \<Rightarrow> 'w \<Rightarrow> (js_error + 'r) \<times> 'w"

text \<open>
  Of the event the handler reads \<open>queryStringParameters\<close>, an object of strings (an
  empty one when the URL has no query).
\<close>

record event =
  queryStringParameters :: "string js_object"

definition String_of_bool :: "bool \<Rightarrow> string" where
  "String_of_bool b = (if b then ''true'' else ''false'')"

text \<open>
  The body of the outer \<open>try\<close> (lines 104--134): the inner \<open>try\<close> turns whatever the
  retryer throws into \<open>PATsValid = false\<close>. \<open>Inl\<close> would be an error thrown to the outer
  \<open>catch\<close>.
\<close>

definition uptime_try ::
  "('w, 'r) retryer \<Rightarrow> (variables \<Rightarrow> string \<Rightarrow> 'w \<Rightarrow> fetch_result \<times> 'w) \<Rightarrow> string \<Rightarrow> 'w \<Rightarrow>
   (js_error + string js_object \<times> http_body) \<times> 'w" where
  "uptime_try retryer request type w =
     (case retryer (uptime_uptimeFetcher request) [] w of
        (res, w') \<Rightarrow>
          (let PATsValid = (case res of Inl err \<Rightarrow> False | Inr r \<Rightarrow> True);
               headers0 = [(''Content-Type'', ''application/json'')];
               headers1 =
                 (if PATsValid
                  then AList.update ''Cache-Control''
                         (''max-age=0, s-maxage='' @ Number_toString uptime_RATE_LIMIT_SECONDS)
                         headers0
                  else AList.update ''Cache-Control'' ''no-store'' headers0)
           in if type = ''shields'' then
                (Inr (AList.update ''Content-Type'' ''application/json'' headers1,
                      Body_shields (shieldsUptimeBadge PATsValid)), w')
              else if type = ''json'' then
                (Inr (headers1, Body_up PATsValid), w')
              else
                (Inr (AList.update ''Content-Type'' ''text/plain'' headers1,
                      Body_text (String_of_bool PATsValid)), w')))"

text \<open>
  Lines 94--95: the \<open>type\<close> parameter in lower case; a missing or empty one is
  \<open>boolean\<close>.
\<close>

definition uptime_type :: "event \<Rightarrow> string" where
  "uptime_type ev =
     (case map_of (queryStringParameters ev) ''type'' of
        None \<Rightarrow> ''boolean''
      | Some t \<Rightarrow> if t = [] then ''boolean'' else toLowerCase t)"

definition uptime_handler ::
  "('w, 'r) retryer \<Rightarrow> (variables \<Rightarrow> string \<Rightarrow> 'w \<Rightarrow> fetch_result \<times> 'w) \<Rightarrow> event \<Rightarrow> 'w \<Rightarrow>
   http_response \<times> 'w" where
  "uptime_handler retryer request ev w =
     (case uptime_try retryer request (uptime_type ev) w of
        (Inr (hdrs, bdy), w') \<Rightarrow>
          (\<lparr> statusCode = 200, headers = hdrs, body = bdy \<rparr>, w')
      | (Inl err, w') \<Rightarrow>
          (\<lparr> statusCode = 500,
             headers = [(''Content-Type'', ''text/plain''), (''Cache-Control'', ''no-store'')],
             body = Body_text (''Something went wrong: '' @ err_message err) \<rparr>, w'))"

section \<open>The Classifier and the Retryer, from the specification\<close>

text \<open>
  Modelled from the spec: the data model of section 3, for \<open>src/common/retryer\<close>, which
  is not among the sources. A credential has an identifier, a secret and its last known
  status; the outcome of an attempt is a success with the payload or a failure with its
  category and the status to record.
\<close>

datatype category = Rate_limited | Expired | Suspended | Transient_error

datatype cred_status =
    Status_unknown
  | Status_valid "int option"
  | Status_rate_limited "int option"
  | Status_expired
  | Status_suspended
  | Status_error "string option" "string option"


datatype outcome = Success response_data | Failure category cred_status








section \<open>Concrete scenarios\<close>

text \<open>
  A configuration of three credentials, listed out of name order beside another variable,
  and an upstream that, at time 0, finds the token \<open>a\<close> valid with quota left, the token
  \<open>b\<close> out of quota until minute 10, the token \<open>s\<close> of a suspended account, and
  rejects every other token as bad credentials.
\<close>

definition example_env :: "string js_object" where
  "example_env =
     [(''PAT_2'', ''b''), (''HOME'', ''/root''), (''PAT_3'', ''c''), (''PAT_1'', ''a'')]"

definition example_clock :: "'w \<Rightarrow> int" where
  "example_clock w = 0"

definition quota_payload :: "int \<Rightarrow> response_data" where
  "quota_payload n =
     \<lparr> rd_message = None, rd_errors = None,
       rd_data = Some \<lparr> rateLimit = Some \<lparr> rl_remaining = Some n,
                                           rl_resetAt = Some 600000 \<rparr> \<rparr> \<rparr>"

definition rejection :: "string \<Rightarrow> js_error" where
  "rejection msg =
     JsError ''Request failed with status code 401''
       (Some \<lparr> rd_message = Some msg, rd_errors = None, rd_data = None \<rparr>)"

text \<open>
  Three more answers: a payload that carries an application error of another type together
  with a quota of zero (token \<open>e\<close>), a payload whose error has the type
  \<open>RATE_LIMITED\<close> (token \<open>r\<close>), and a network failure that has no response
  (token \<open>t\<close>).
\<close>

definition error_and_zero_quota :: response_data where
  "error_and_zero_quota =
     \<lparr> rd_message = None,
       rd_errors = Some [\<lparr> error_type = Some ''NOT_FOUND'',
                          error_message = Some ''Could not resolve'' \<rparr>],
       rd_data = Some \<lparr> rateLimit = Some \<lparr> rl_remaining = Some 0,
                                           rl_resetAt = Some 600000 \<rparr> \<rparr> \<rparr>"

definition rate_limited_error :: response_data where
  "rate_limited_error =
     \<lparr> rd_message = None,
       rd_errors = Some [\<lparr> error_type = Some ''RATE_LIMITED'',
                          error_message = Some ''API rate limit exceeded'' \<rparr>],
       rd_data = None \<rparr>"

definition network_failure :: js_error where
  "network_failure = JsError ''timeout of 8000ms exceeded'' None"

definition example_request :: "variables \<Rightarrow> string \<Rightarrow> unit \<Rightarrow> fetch_result \<times> unit" where
  "example_request variables authorization w =
     (if authorization = ''bearer a'' then Resolved (quota_payload 5)
      else if authorization = ''bearer b'' then Resolved (quota_payload 0)
      else if authorization = ''bearer e'' then Resolved error_and_zero_quota
      else if authorization = ''bearer r'' then Resolved rate_limited_error
      else if authorization = ''bearer s''
      then Rejected (rejection ''Sorry. Your account was suspended.'')
      else if authorization = ''bearer t'' then Rejected network_failure
      else Rejected (rejection ''Bad credentials''), w)"

definition example_fetcher :: "unit fetcher" where
  "example_fetcher = pat_info_uptimeFetcher example_request"

definition example_report :: PATInfo where
  "example_report =
     \<lparr> validPATs = [''PAT_1''], expiredPATs = [''PAT_3''], exhaustedPATs = [''PAT_2''],
       suspendedPATs = [], errorPATs = [],
       details = [(''PAT_1'', Detail_valid (Some 5)),
                  (''PAT_2'', Detail_exhausted 0 ''10 minutes''),
                  (''PAT_3'', Detail_expired)] \<rparr>"


text \<open>
  Other configurations: three valid credentials that the environment lists in another
  order than that of their names; one whose second credential meets the network failure; one whose
  only credential gets the payload with an error and a quota of zero; one with a
  suspended account.
\<close>

definition unordered_env :: "string js_object" where
  "unordered_env = [(''PAT_2'', ''a''), (''PAT_10'', ''a''), (''PAT_1'', ''a'')]"

definition failing_env :: "string js_object" where
  "failing_env = [(''PAT_1'', ''a''), (''PAT_2'', ''t''), (''PAT_3'', ''b'')]"

definition error_env :: "string js_object" where
  "error_env = [(''PAT_1'', ''e'')]"

definition suspended_env :: "string js_object" where
  "suspended_env = [(''PAT_1'', ''b''), (''PAT_2'', ''s''), (''PAT_3'', ''a'')]"

text \<open>
  For the uptime function: a retryer that tries one token and throws what the fetcher
  throws, and the three output shapes as requests.
\<close>

definition single_retryer :: "string \<Rightarrow> (unit, response_data) retryer" where
  "single_retryer tok operation variables w =
     (case operation variables (Some tok) w of
        (Resolved payload, w') \<Rightarrow> (Inr payload, w')
      | (Rejected err, w') \<Rightarrow> (Inl err, w'))"

definition shields_event :: event where
  "shields_event = \<lparr> queryStringParameters = [(''type'', ''Shields'')] \<rparr>"

definition json_event :: event where
  "json_event = \<lparr> queryStringParameters = [(''type'', ''json'')] \<rparr>"

definition plain_event :: event where
  "plain_event = \<lparr> queryStringParameters = [] \<rparr>"



text \<open>Requests for the uptime function with another spelling and an unknown type.\<close>

definition upper_json_event :: event where
  "upper_json_event = \<lparr> queryStringParameters = [(''type'', ''JSON'')] \<rparr>"

definition xml_event :: event where
  "xml_event = \<lparr> queryStringParameters = [(''type'', ''xml'')] \<rparr>"

section \<open>The probing loop\<close>

lemma loop_body_Inr:
  assumes "loop_body now env fetcher vars pat dets w = (Inr dets', w')"
  shows "\<exists>d. dets' = AList.update pat d dets"
  using assms
  by (auto simp: loop_body_def Let_def split: prod.splits sum.splits fetch_result.splits)

lemma loop_body_world:
  "snd (loop_body now env fetcher vars pat dets w) = snd (fetcher vars (map_of env pat) w)"
  by (auto simp: loop_body_def Let_def split: prod.splits sum.splits fetch_result.splits)

lemma probe_loop_keys:
  assumes "probe_loop now env fetcher vars PATs dets w = (Inr dets', w')"
  shows "set (Object_keys dets') = set (Object_keys dets) \<union> set PATs"
  using assms
proof (induction PATs arbitrary: dets w)
  case Nil
  then show ?case by simp
next
  case (Cons pat PATs)
  from Cons.prems obtain d1 w1 where
    step: "loop_body now env fetcher vars pat dets w = (Inr d1, w1)" and
    rest: "probe_loop now env fetcher vars PATs d1 w1 = (Inr dets', w')"
    by (auto split: prod.splits sum.splits)
  from loop_body_Inr [OF step] obtain d where d1: "d1 = AList.update pat d dets" ..
  have "set (Object_keys d1) = insert pat (set (Object_keys dets))"
    by (simp add: d1 Object_keys_def dom_update)
  with Cons.IH [OF rest] show ?case by auto
qed

lemma probe_loop_distinct:
  assumes "probe_loop now env fetcher vars PATs dets w = (Inr dets', w')"
    and "distinct (Object_keys dets)"
  shows "distinct (Object_keys dets')"
  using assms
proof (induction PATs arbitrary: dets w)
  case Nil
  then show ?case by simp
next
  case (Cons pat PATs)
  from Cons.prems(1) obtain d1 w1 where
    step: "loop_body now env fetcher vars pat dets w = (Inr d1, w1)" and
    rest: "probe_loop now env fetcher vars PATs d1 w1 = (Inr dets', w')"
    by (auto split: prod.splits sum.splits)
  from loop_body_Inr [OF step] obtain d where d1: "d1 = AList.update pat d dets" ..
  have "distinct (Object_keys d1)"
    using Cons.prems(2) by (simp add: d1 Object_keys_def distinct_update)
  with Cons.IH [OF rest] show ?case by auto
qed

lemma probe_loop_subseq:
  assumes "probe_loop now env fetcher vars PATs dets w = (Inr dets', w')"
  shows "\<exists>ys. Object_keys dets' = Object_keys dets @ ys \<and> subseq ys PATs"
  using assms
proof (induction PATs arbitrary: dets w)
  case Nil
  then show ?case by simp
next
  case (Cons pat PATs)
  from Cons.prems(1) obtain d1 w1 where
    step: "loop_body now env fetcher vars pat dets w = (Inr d1, w1)" and
    rest: "probe_loop now env fetcher vars PATs d1 w1 = (Inr dets', w')"
    by (auto split: prod.splits sum.splits)
  from loop_body_Inr [OF step] obtain d where d1: "d1 = AList.update pat d dets" ..
  from Cons.IH [OF rest] obtain ys where
    ys: "Object_keys dets' = Object_keys d1 @ ys" "subseq ys PATs" by blast
  show ?case
  proof (cases "pat \<in> set (Object_keys dets)")
    case True
    then have "Object_keys d1 = Object_keys dets"
      by (simp add: d1 Object_keys_def update_keys)
    with ys show ?thesis by (auto intro: subseq_Cons')
  next
    case False
    then have "Object_keys d1 = Object_keys dets @ [pat]"
      by (simp add: d1 Object_keys_def update_keys)
    with ys have "Object_keys dets' = Object_keys dets @ (pat # ys)" by simp
    moreover have "subseq (pat # ys) (pat # PATs)" using ys(2) by simp
    ultimately show ?thesis by blast
  qed
qed

lemma probe_loop_logged:
  assumes "probe_loop now' env (logged fetcher) vars PATs dets (w, calls) = (Inr dets', (w', calls'))"
  shows "calls' = calls @ map (map_of env) PATs"
  using assms
proof (induction PATs arbitrary: dets w calls)
  case Nil
  then show ?case by simp
next
  case (Cons pat PATs)
  from Cons.prems(1) obtain d1 w1 c1 where
    step: "loop_body now' env (logged fetcher) vars pat dets (w, calls) = (Inr d1, (w1, c1))" and
    rest: "probe_loop now' env (logged fetcher) vars PATs d1 (w1, c1) = (Inr dets', (w', calls'))"
    by (auto split: prod.splits sum.splits)
  have "snd (w1, c1) = calls @ [map_of env pat]"
    using loop_body_world [of now' env "logged fetcher" vars pat dets "(w, calls)"]
    unfolding step by (simp add: logged_def split: prod.splits)
  with Cons.IH [OF rest] show ?case by simp
qed


lemma foldl_update_keys:
  assumes "distinct ks" and "set ks \<inter> fst ` set obj = {}"
    and "\<forall>k\<in>set ks. map_of dets k \<noteq> None"
  shows "map fst (foldl (\<lambda>obj key. case map_of dets key of
                         Some d \<Rightarrow> AList.update key d obj
                       | None \<Rightarrow> obj) obj ks) = map fst obj @ ks"
  using assms
proof (induction ks arbitrary: obj)
  case Nil
  then show ?case by simp
next
  case (Cons k ks)
  from Cons.prems(3) obtain d where d: "map_of dets k = Some d" by auto
  have notin: "k \<notin> fst ` set obj" using Cons.prems(2) by auto
  have keys: "map fst (AList.update k d obj) = map fst obj @ [k]"
    using notin by (simp add: update_keys)
  have "set ks \<inter> fst ` set (AList.update k d obj) = {}"
    using Cons.prems(1,2) by (auto simp: dom_update)
  from Cons.IH [OF _ this] Cons.prems(1,3) keys d show ?case by simp
qed

lemma foldl_update_map_of:
  assumes "\<forall>k\<in>set ks. map_of dets k \<noteq> None"
  shows "map_of (foldl (\<lambda>obj key. case map_of dets key of
                         Some d \<Rightarrow> AList.update key d obj
                       | None \<Rightarrow> obj) obj ks) k =
         (if k \<in> set ks then map_of dets k else map_of obj k)"
  using assms
proof (induction ks arbitrary: obj)
  case Nil
  then show ?case by simp
next
  case (Cons a ks)
  from Cons.prems obtain d where d: "map_of dets a = Some d" by auto
  from Cons.prems have "\<forall>k\<in>set ks. map_of dets k \<noteq> None" by simp
  from Cons.IH [OF this, of "AList.update a d obj"] d show ?case
    by (simp add: update_conv')
qed

lemma keys_have_values: "\<forall>k\<in>set (map fst dets). map_of dets k \<noteq> None"
  by (auto simp: map_of_eq_None_iff)

lemma sortedDetails_keys:
  assumes "distinct (Object_keys dets)"
  shows "Object_keys (sortedDetails dets) = sort (Object_keys dets)"
proof -
  have "\<forall>k\<in>set (sort (map fst dets)). map_of dets k \<noteq> None"
    using keys_have_values [of dets] by simp
  moreover have "distinct (sort (map fst dets))"
    using assms by (simp add: Object_keys_def)
  ultimately show ?thesis
    using foldl_update_keys [of "sort (map fst dets)" "[]" dets]
    by (simp add: sortedDetails_def Object_keys_def)
qed

lemma sortedDetails_map_of: "map_of (sortedDetails dets) k = map_of dets k"
proof -
  have "\<forall>k\<in>set (sort (map fst dets)). map_of dets k \<noteq> None"
    using keys_have_values [of dets] by simp
  from foldl_update_map_of [OF this, of "[]" k]
  have "map_of (sortedDetails dets) k = (if k \<in> fst ` set dets then map_of dets k else None)"
    by (simp add: sortedDetails_def Object_keys_def)
  moreover have "map_of dets k = None" if "k \<notin> fst ` set dets"
    using that by (simp add: map_of_eq_None_iff)
  ultimately show ?thesis by simp
qed

lemma getPATInfo_Inr:
  assumes "getPATInfo now env fetcher vars w = (Inr r, w')"
  shows "\<exists>dets. probe_loop now env fetcher vars (getAllPATs env) [] w = (Inr dets, w') \<and>
           r = \<lparr> validPATs = filterPATsByStatus dets ''valid'',
                 expiredPATs = filterPATsByStatus dets ''expired'',
                 exhaustedPATs = filterPATsByStatus dets ''exhausted'',
                 suspendedPATs = filterPATsByStatus dets ''suspended'',
                 errorPATs = filterPATsByStatus dets ''error'',
                 details = sortedDetails dets \<rparr>"
  using assms by (auto simp: getPATInfo_def Let_def split: prod.splits sum.splits)

text \<open>
  Claim C1. The Status Prober attempts the operation with every configured credential and
  never stops early after a success: whenever \<open>getPATInfo\<close> returns a report, the details
  map has exactly one entry per configured credential, whatever the credentials classified
  as; and run with a recording fetcher, it has called the fetcher once for each configured
  credential, in the order of the configuration.
\<close>

theorem getPATInfo_probes_every_credential:
  "(getPATInfo now env fetcher vars w = (Inr r, w') \<longrightarrow>
      distinct (Object_keys (details r)) \<and>
      set (Object_keys (details r)) = set (getAllPATs env) \<and>
      (distinct (Object_keys env) \<longrightarrow> length (details r) = length (getAllPATs env))) \<and>
   (getPATInfo now' env (logged fetcher) vars (w, []) = (Inr r', (w'', calls)) \<longrightarrow>
      calls = map (map_of env) (getAllPATs env))"
proof (intro conjI impI)
  assume run: "getPATInfo now env fetcher vars w = (Inr r, w')"
  from getPATInfo_Inr [OF run] obtain dets where
    loop: "probe_loop now env fetcher vars (getAllPATs env) [] w = (Inr dets, w')" and
    r: "details r = sortedDetails dets" by auto
  have dist: "distinct (Object_keys dets)"
    using probe_loop_distinct [OF loop] by (simp add: Object_keys_def)
  have keys: "set (Object_keys dets) = set (getAllPATs env)"
    using probe_loop_keys [OF loop] by (simp add: Object_keys_def)
  have sk: "Object_keys (details r) = sort (Object_keys dets)"
    using sortedDetails_keys [OF dist] r by simp
  show d2: "distinct (Object_keys (details r))" using sk dist by simp
  show s2: "set (Object_keys (details r)) = set (getAllPATs env)" using sk keys by simp
  show "length (details r) = length (getAllPATs env)" if "distinct (Object_keys env)"
  proof -
    have "distinct (getAllPATs env)" using that by (simp add: getAllPATs_def)
    then have "card (set (getAllPATs env)) = length (getAllPATs env)"
      by (rule distinct_card)
    moreover have "card (set (Object_keys (details r))) = length (Object_keys (details r))"
      using d2 by (rule distinct_card)
    ultimately show ?thesis using s2 by (simp add: Object_keys_def)
  qed
next
  assume run: "getPATInfo now' env (logged fetcher) vars (w, []) = (Inr r', (w'', calls))"
  from getPATInfo_Inr [OF run] obtain dets where
    loop: "probe_loop now' env (logged fetcher) vars (getAllPATs env) [] (w, []) =
             (Inr dets, (w'', calls))" by auto
  show "calls = map (map_of env) (getAllPATs env)"
    using probe_loop_logged [OF loop] by simp
qed

theorem getPATInfo_probes_every_credential_witness:
  "getPATInfo example_clock example_env example_fetcher [] () = (Inr example_report, ()) \<and>
   getPATInfo example_clock example_env (logged example_fetcher) [] ((), []) =
     (Inr example_report, ((), [Some ''b'', Some ''c'', Some ''a''])) \<and>
   distinct (Object_keys example_env) \<and>
   getAllPATs example_env = [''PAT_2'', ''PAT_3'', ''PAT_1''] \<and>
   [Some ''b'', Some ''c'', Some ''a''] = map (map_of example_env) (getAllPATs example_env) \<and>
   distinct (Object_keys (details example_report)) \<and>
   set (Object_keys (details example_report)) = set (getAllPATs example_env) \<and>
   length (details example_report) = length (getAllPATs example_env)"
proof -
  have plain: "getPATInfo example_clock example_env example_fetcher [] () =
     (Inr example_report, ())"
    by code_simp
  have run: "getPATInfo example_clock example_env (logged example_fetcher) [] ((), []) =
     (Inr example_report, ((), [Some ''b'', Some ''c'', Some ''a'']))"
    by code_simp
  have dist: "distinct (Object_keys example_env)"
    by code_simp
  have pats: "getAllPATs example_env = [''PAT_2'', ''PAT_3'', ''PAT_1'']"
    by code_simp
  note th = getPATInfo_probes_every_credential
      [of example_clock example_env example_fetcher "[]" "()" example_report "()"
          example_clock example_report "()" "[Some ''b'', Some ''c'', Some ''a'']"]
  from th plain dist have
    "distinct (Object_keys (details example_report))"
    "set (Object_keys (details example_report)) = set (getAllPATs example_env)"
    "length (details example_report) = length (getAllPATs example_env)"
    by blast+
  moreover from th run have
    "[Some ''b'', Some ''c'', Some ''a''] = map (map_of example_env) (getAllPATs example_env)"
    by blast
  ultimately show ?thesis using plain run dist pats by (intro conjI)
qed

section \<open>Classification, propagation and the order of the report\<close>

lemma rate_limit_text_pat: "Number_toString pat_info_RATE_LIMIT_SECONDS = ''300''"
  by code_simp

lemma pat_info_handler_Inr:
  assumes "getPATInfo now env (pat_info_uptimeFetcher request) [] w = (Inr r, w')"
  shows "pat_info_handler now env request w =
     (\<lparr> statusCode = 200,
        headers = [(''Content-Type'', ''application/json''),
                   (''Cache-Control'', ''max-age=0, s-maxage=300'')],
        body = Body_PATInfo r \<rparr>, w')"
  using assms by (simp add: pat_info_handler_def rate_limit_text_pat)

lemma pat_info_handler_Inl:
  assumes "getPATInfo now env (pat_info_uptimeFetcher request) [] w = (Inl err, w')"
  shows "pat_info_handler now env request w =
     (\<lparr> statusCode = 500,
        headers = [(''Content-Type'', ''text/plain''), (''Cache-Control'', ''no-store'')],
        body = Body_text (''Something went wrong: '' @ err_message err) \<rparr>, w')"
  using assms by (simp add: pat_info_handler_def)

lemma catch_block_TypeError: "catch_block (TypeError m) = Inl (TypeError m)"
  by (simp add: catch_block_def errorMessage_of_def TypeError_def)

lemma try_block_Inl: "try_block r t = Inl e \<Longrightarrow> \<exists>m. e = TypeError m"
  by (auto simp: try_block_def Let_def split: if_splits option.splits list.splits)

lemma loop_body_Resolved:
  assumes "fetcher vars (map_of env pat) w = (Resolved r, w')"
  shows "loop_body now env fetcher vars pat dets w =
     (case try_block r (now w') of
        Inl e \<Rightarrow> (Inl e, w')
      | Inr d \<Rightarrow> (Inr (AList.update pat d dets), w'))"
proof (cases "try_block r (now w')")
  case (Inl e)
  with try_block_Inl obtain m where "e = TypeError m" by blast
  with Inl assms show ?thesis
    by (simp add: loop_body_def catch_block_TypeError)
next
  case (Inr d)
  with assms show ?thesis by (simp add: loop_body_def)
qed

lemma loop_body_Rejected:
  assumes "fetcher vars (map_of env pat) w = (Rejected err, w')"
  shows "loop_body now env fetcher vars pat dets w =
     (case catch_block err of
        Inl e \<Rightarrow> (Inl e, w')
      | Inr d \<Rightarrow> (Inr (AList.update pat d dets), w'))"
  using assms by (simp add: loop_body_def)

lemma probe_loop_append:
  "probe_loop now env fetcher vars (xs @ ys) dets w =
     (case probe_loop now env fetcher vars xs dets w of
        (Inl e, w') \<Rightarrow> (Inl e, w')
      | (Inr dets', w') \<Rightarrow> probe_loop now env fetcher vars ys dets' w')"
  by (induction xs arbitrary: dets w) (auto split: prod.splits sum.splits)

lemma probe_loop_other:
  assumes "probe_loop now env fetcher vars PATs dets w = (Inr dets', w')"
    and "pat \<notin> set PATs"
  shows "map_of dets' pat = map_of dets pat"
  using assms
proof (induction PATs arbitrary: dets w)
  case Nil
  then show ?case by simp
next
  case (Cons p PATs)
  from Cons.prems(1) obtain d1 w1 where
    step: "loop_body now env fetcher vars p dets w = (Inr d1, w1)" and
    rest: "probe_loop now env fetcher vars PATs d1 w1 = (Inr dets', w')"
    by (auto split: prod.splits sum.splits)
  from loop_body_Inr [OF step] obtain d where d1: "d1 = AList.update p d dets" ..
  from Cons.prems(2) have "map_of d1 pat = map_of dets pat"
    by (simp add: d1 update_conv')
  moreover from Cons.IH [OF rest] Cons.prems(2) have "map_of dets' pat = map_of d1 pat"
    by simp
  ultimately show ?case by simp
qed

lemma filterPATsByStatus_iff:
  "pat \<in> set (filterPATsByStatus dets st) \<longleftrightarrow> map_option status (map_of dets pat) = Some st"
proof -
  have "pat \<in> fst ` set dets" if "map_option status (map_of dets pat) = Some st"
  proof (rule ccontr)
    assume "pat \<notin> fst ` set dets"
    then have "map_of dets pat = None" by (simp add: map_of_eq_None_iff)
    with that show False by simp
  qed
  then show ?thesis
    by (auto simp: filterPATsByStatus_def Object_keys_def)
qed

lemma getPATInfo_abort:
  assumes pats: "getAllPATs env = pre @ pat # post"
    and pre: "probe_loop now env fetcher vars pre [] w = (Inr dets, w1)"
    and body: "loop_body now env fetcher vars pat dets w1 = (Inl err, w2)"
  shows "getPATInfo now env fetcher vars w = (Inl err, w2)"
proof -
  have "probe_loop now env fetcher vars (pre @ pat # post) [] w = (Inl err, w2)"
    using pre body by (simp add: probe_loop_append)
  then show ?thesis by (simp add: getPATInfo_def pats)
qed

text \<open>
  Claim C2. When the attempt for a credential throws a failure that carries neither the
  bad-credentials nor the account-suspended message, \<open>getPATInfo\<close> throws that error at
  once: no status is recorded, the world is the one the failing call left (no later
  credential is tried), and the handler answers with status code 500.
\<close>

theorem getPATInfo_propagates_unrecognized:
  assumes pats: "getAllPATs env = pre @ pat # post"
    and pre: "probe_loop now env fetcher vars pre [] w = (Inr dets, w1)"
    and thrown: "fetcher vars (map_of env pat) w1 = (Rejected err, w2)"
    and not_bad: "errorMessage_of err \<noteq> Some ''bad credentials''"
    and not_suspended: "errorMessage_of err \<noteq> Some ''sorry. your account was suspended.''"
  shows "getPATInfo now env fetcher vars w = (Inl err, w2) \<and>
         (\<forall>request. fetcher = pat_info_uptimeFetcher request \<and> vars = [] \<longrightarrow>
            pat_info_handler now env request w =
              (\<lparr> statusCode = 500,
                 headers = [(''Content-Type'', ''text/plain''),
                            (''Cache-Control'', ''no-store'')],
                 body = Body_text (''Something went wrong: '' @ err_message err) \<rparr>, w2))"
proof -
  have "catch_block err = Inl err"
    using not_bad not_suspended by (simp add: catch_block_def)
  then have "loop_body now env fetcher vars pat dets w1 = (Inl err, w2)"
    using loop_body_Rejected [of fetcher vars env pat w1 err w2 now dets] thrown by simp
  from getPATInfo_abort [OF pats pre this]
  have abort: "getPATInfo now env fetcher vars w = (Inl err, w2)" .
  then show ?thesis
    using pat_info_handler_Inl [of now env _ w err w2] by auto
qed

theorem getPATInfo_propagates_unrecognized_witness:
  "getAllPATs failing_env = [''PAT_1''] @ ''PAT_2'' # [''PAT_3''] \<and>
   probe_loop example_clock failing_env example_fetcher [] [''PAT_1''] [] () =
     (Inr [(''PAT_1'', Detail_valid (Some 5))], ()) \<and>
   example_fetcher [] (map_of failing_env ''PAT_2'') () = (Rejected network_failure, ()) \<and>
   errorMessage_of network_failure = None \<and>
   getPATInfo example_clock failing_env example_fetcher [] () = (Inl network_failure, ()) \<and>
   getPATInfo example_clock failing_env (logged example_fetcher) [] ((), []) =
     (Inl network_failure, ((), [Some ''a'', Some ''t''])) \<and>
   pat_info_handler example_clock failing_env example_request () =
     (\<lparr> statusCode = 500,
        headers = [(''Content-Type'', ''text/plain''), (''Cache-Control'', ''no-store'')],
        body = Body_text ''Something went wrong: timeout of 8000ms exceeded'' \<rparr>, ())"
proof -
  have pats: "getAllPATs failing_env = [''PAT_1''] @ ''PAT_2'' # [''PAT_3'']"
    by code_simp
  have pre: "probe_loop example_clock failing_env example_fetcher [] [''PAT_1''] [] () =
     (Inr [(''PAT_1'', Detail_valid (Some 5))], ())"
    by code_simp
  have thrown: "example_fetcher [] (map_of failing_env ''PAT_2'') () =
     (Rejected network_failure, ())"
    by code_simp
  have msg: "errorMessage_of network_failure = None"
    by code_simp
  have pre_l: "probe_loop example_clock failing_env (logged example_fetcher) [] [''PAT_1''] []
       ((), []) = (Inr [(''PAT_1'', Detail_valid (Some 5))], ((), [Some ''a'']))"
    by code_simp
  have thrown_l: "logged example_fetcher [] (map_of failing_env ''PAT_2'') ((), [Some ''a'']) =
     (Rejected network_failure, ((), [Some ''a'', Some ''t'']))"
    by code_simp
  note plain = getPATInfo_propagates_unrecognized
      [of failing_env "[''PAT_1'']" "''PAT_2''" "[''PAT_3'']" example_clock example_fetcher "[]"
          "()" "[(''PAT_1'', Detail_valid (Some 5))]" "()" network_failure "()",
       OF pats pre thrown]
  note rec = getPATInfo_propagates_unrecognized
      [of failing_env "[''PAT_1'']" "''PAT_2''" "[''PAT_3'']" example_clock
          "logged example_fetcher" "[]"
          "((), [])" "[(''PAT_1'', Detail_valid (Some 5))]" "((), [Some ''a''])" network_failure
          "((), [Some ''a'', Some ''t''])",
       OF pats pre_l thrown_l]
  have p1: "getPATInfo example_clock failing_env example_fetcher [] () =
      (Inl network_failure, ())"
    using plain msg by simp
  have p2: "pat_info_handler example_clock failing_env example_request () =
     (\<lparr> statusCode = 500,
        headers = [(''Content-Type'', ''text/plain''), (''Cache-Control'', ''no-store'')],
        body = Body_text (''Something went wrong: '' @ err_message network_failure) \<rparr>, ())"
    using plain msg by (simp add: example_fetcher_def)
  have p3: "getPATInfo example_clock failing_env (logged example_fetcher) [] ((), []) =
     (Inl network_failure, ((), [Some ''a'', Some ''t'']))"
    using rec msg by simp
  have m: "''Something went wrong: '' @ err_message network_failure =
      ''Something went wrong: timeout of 8000ms exceeded''"
    by (simp add: network_failure_def)
  from pats pre thrown msg p1 p2 p3 show ?thesis
    unfolding m by (intro conjI)
qed

lemma getPATInfo_status_of:
  assumes pats: "getAllPATs env = pre @ pat # post"
    and last: "pat \<notin> set post"
    and pre: "probe_loop now env fetcher vars pre [] w = (Inr dets, w1)"
    and body: "loop_body now env fetcher vars pat dets w1 = (Inr (AList.update pat d dets), w2)"
    and run: "getPATInfo now env fetcher vars w = (Inr r, w')"
  shows "map_of (details r) pat = Some d"
    and "pat \<in> set (validPATs r) \<longleftrightarrow> status d = ''valid''"
    and "pat \<in> set (expiredPATs r) \<longleftrightarrow> status d = ''expired''"
    and "pat \<in> set (exhaustedPATs r) \<longleftrightarrow> status d = ''exhausted''"
    and "pat \<in> set (suspendedPATs r) \<longleftrightarrow> status d = ''suspended''"
    and "pat \<in> set (errorPATs r) \<longleftrightarrow> status d = ''error''"
proof -
  from getPATInfo_Inr [OF run] obtain ds where
    loop: "probe_loop now env fetcher vars (getAllPATs env) [] w = (Inr ds, w')" and
    r: "r = \<lparr> validPATs = filterPATsByStatus ds ''valid'',
                 expiredPATs = filterPATsByStatus ds ''expired'',
                 exhaustedPATs = filterPATsByStatus ds ''exhausted'',
                 suspendedPATs = filterPATsByStatus ds ''suspended'',
                 errorPATs = filterPATsByStatus ds ''error'',
                 details = sortedDetails ds \<rparr>" by blast
  have "probe_loop now env fetcher vars (pre @ [pat] @ post) [] w = (Inr ds, w')"
    using loop pats by simp
  then have post: "probe_loop now env fetcher vars post (AList.update pat d dets) w2 = (Inr ds, w')"
    using pre body by (simp add: probe_loop_append)
  from probe_loop_other [OF post last] have ds: "map_of ds pat = Some d"
    by (simp add: update_conv')
  show "map_of (details r) pat = Some d"
    by (simp add: r sortedDetails_map_of ds)
  show "pat \<in> set (validPATs r) \<longleftrightarrow> status d = ''valid''"
    by (simp add: r filterPATsByStatus_iff ds)
  show "pat \<in> set (expiredPATs r) \<longleftrightarrow> status d = ''expired''"
    by (simp add: r filterPATsByStatus_iff ds)
  show "pat \<in> set (exhaustedPATs r) \<longleftrightarrow> status d = ''exhausted''"
    by (simp add: r filterPATsByStatus_iff ds)
  show "pat \<in> set (suspendedPATs r) \<longleftrightarrow> status d = ''suspended''"
    by (simp add: r filterPATsByStatus_iff ds)
  show "pat \<in> set (errorPATs r) \<longleftrightarrow> status d = ''error''"
    by (simp add: r filterPATsByStatus_iff ds)
qed

text \<open>
  Claim C3. A credential whose attempt is rejected with the bad-credentials message is
  classified \<open>expired\<close>, one rejected with the account-suspended message
  \<open>suspended\<close>, whatever else the rejection's response carries; in the report it is in
  that list and in no other, in particular not among the exhausted ones.
\<close>

theorem rejected_credential_never_exhausted:
  assumes pats: "getAllPATs env = pre @ pat # post"
    and last: "pat \<notin> set post"
    and pre: "probe_loop now env fetcher vars pre [] w = (Inr dets, w1)"
    and thrown: "fetcher vars (map_of env pat) w1 = (Rejected err, w2)"
    and signal: "errorMessage_of err = Some ''bad credentials'' \<or>
                 errorMessage_of err = Some ''sorry. your account was suspended.''"
    and run: "getPATInfo now env fetcher vars w = (Inr r, w')"
  shows "loop_body now env fetcher vars pat dets w1 =
           (Inr (AList.update pat
                  (if errorMessage_of err = Some ''bad credentials''
                   then Detail_expired else Detail_suspended) dets), w2) \<and>
         map_of (details r) pat =
           Some (if errorMessage_of err = Some ''bad credentials''
                 then Detail_expired else Detail_suspended) \<and>
         pat \<in> set (if errorMessage_of err = Some ''bad credentials''
                     then expiredPATs r else suspendedPATs r) \<and>
         pat \<notin> set (exhaustedPATs r) \<and> pat \<notin> set (validPATs r) \<and>
         pat \<notin> set (errorPATs r)"
proof -
  define d where "d = (if errorMessage_of err = Some ''bad credentials''
                   then Detail_expired else Detail_suspended)"
  have "catch_block err = Inr d"
    using signal by (auto simp: catch_block_def d_def)
  then have body: "loop_body now env fetcher vars pat dets w1 = (Inr (AList.update pat d dets), w2)"
    using loop_body_Rejected [of fetcher vars env pat w1 err w2 now dets] thrown by simp
  note st = getPATInfo_status_of [OF pats last pre body run]
  have "status d = ''expired'' \<or> status d = ''suspended''"
    by (simp add: d_def)
  have "pat \<in> set (if errorMessage_of err = Some ''bad credentials''
                     then expiredPATs r else suspendedPATs r)"
    using st(3,5) by (simp add: d_def)
  moreover have "pat \<notin> set (exhaustedPATs r)" "pat \<notin> set (validPATs r)"
    "pat \<notin> set (errorPATs r)"
    using st(2,4,6) by (simp_all add: d_def)
  ultimately show ?thesis
    using body st(1) unfolding d_def by (intro conjI)
qed

theorem rejected_credential_never_exhausted_witness:
  "getAllPATs suspended_env = [''PAT_1''] @ ''PAT_2'' # [''PAT_3''] \<and>
   ''PAT_2'' \<notin> set [''PAT_3''] \<and>
   probe_loop example_clock suspended_env example_fetcher [] [''PAT_1''] [] () =
     (Inr [(''PAT_1'', Detail_exhausted 0 ''10 minutes'')], ()) \<and>
   example_fetcher [] (map_of suspended_env ''PAT_2'') () =
     (Rejected (rejection ''Sorry. Your account was suspended.''), ()) \<and>
   errorMessage_of (rejection ''Sorry. Your account was suspended.'') =
     Some ''sorry. your account was suspended.'' \<and>
   getPATInfo example_clock suspended_env example_fetcher [] () =
     (Inr \<lparr> validPATs = [''PAT_3''], expiredPATs = [], exhaustedPATs = [''PAT_1''],
            suspendedPATs = [''PAT_2''], errorPATs = [],
            details = [(''PAT_1'', Detail_exhausted 0 ''10 minutes''),
                       (''PAT_2'', Detail_suspended),
                       (''PAT_3'', Detail_valid (Some 5))] \<rparr>, ()) \<and>
   map_of [(''PAT_1'', Detail_exhausted 0 ''10 minutes''), (''PAT_2'', Detail_suspended),
           (''PAT_3'', Detail_valid (Some 5))] ''PAT_2'' = Some Detail_suspended \<and>
   ''PAT_2'' \<in> set [''PAT_2''] \<and> ''PAT_2'' \<notin> set [''PAT_1'']"
proof -
  have pats: "getAllPATs suspended_env = [''PAT_1''] @ ''PAT_2'' # [''PAT_3'']"
    by code_simp
  have last: "''PAT_2'' \<notin> set [''PAT_3'']"
    by simp
  have pre: "probe_loop example_clock suspended_env example_fetcher [] [''PAT_1''] [] () =
     (Inr [(''PAT_1'', Detail_exhausted 0 ''10 minutes'')], ())"
    by code_simp
  have thrown: "example_fetcher [] (map_of suspended_env ''PAT_2'') () =
     (Rejected (rejection ''Sorry. Your account was suspended.''), ())"
    by code_simp
  have msg: "errorMessage_of (rejection ''Sorry. Your account was suspended.'') =
     Some ''sorry. your account was suspended.''"
    by code_simp
  have run: "getPATInfo example_clock suspended_env example_fetcher [] () =
     (Inr \<lparr> validPATs = [''PAT_3''], expiredPATs = [], exhaustedPATs = [''PAT_1''],
            suspendedPATs = [''PAT_2''], errorPATs = [],
            details = [(''PAT_1'', Detail_exhausted 0 ''10 minutes''),
                       (''PAT_2'', Detail_suspended),
                       (''PAT_3'', Detail_valid (Some 5))] \<rparr>, ())"
    by code_simp
  from msg have sig: "errorMessage_of (rejection ''Sorry. Your account was suspended.'') =
        Some ''bad credentials'' \<or>
      errorMessage_of (rejection ''Sorry. Your account was suspended.'') =
        Some ''sorry. your account was suspended.''"
    by simp
  note th = rejected_credential_never_exhausted
      [of suspended_env "[''PAT_1'']" "''PAT_2''" "[''PAT_3'']" example_clock example_fetcher "[]"
          "()" "[(''PAT_1'', Detail_exhausted 0 ''10 minutes'')]" "()"
          "rejection ''Sorry. Your account was suspended.''" "()" _ "()",
       OF pats last pre thrown sig run]
  from th msg have
    "map_of [(''PAT_1'', Detail_exhausted 0 ''10 minutes''), (''PAT_2'', Detail_suspended),
           (''PAT_3'', Detail_valid (Some 5))] ''PAT_2'' = Some Detail_suspended"
    and "''PAT_2'' \<in> set [''PAT_2'']" and "''PAT_2'' \<notin> set [''PAT_1'']"
    by simp_all
  with pats last pre thrown msg run show ?thesis by (intro conjI)
qed


lemma errorType_of_Some: "errorType_of errors = Some t \<Longrightarrow> errors \<noteq> None"
  by (auto simp: errorType_of_def split: option.splits)

lemma try_block_exhausted:
  "(\<exists>d. try_block r t = Inr d \<and> status d = ''exhausted'') \<longleftrightarrow>
     (errorType_of (rd_errors r) = Some ''RATE_LIMITED'' \<or>
      (rd_errors r = None \<and> remaining_of r = Some 0))"
  by (auto simp: try_block_def Let_def errorType_of_def
        split: option.splits list.splits)

lemma try_block_exhausted_detail:
  assumes "errorType_of (rd_errors r) = Some ''RATE_LIMITED'' \<or>
      (rd_errors r = None \<and> remaining_of r = Some 0)"
  shows "try_block r t =
     Inr (Detail_exhausted 0 (number_text (dateDiff (resetAt_of r) (Some t)) @ '' minutes''))"
  using assms
  by (auto simp: try_block_def Let_def errorType_of_def
        split: option.splits list.splits)

text \<open>
  Claim C4, amended. For a successful response the credential is classified
  \<open>exhausted\<close> exactly when the first error of the payload has the type
  \<open>RATE_LIMITED\<close>, or the payload has no errors and its remaining quota is zero. The
  detail then has \<open>remaining\<close> 0 and as \<open>resetIn\<close> the truncated number of minutes
  from the current time to the reset timestamp, followed by \<open>minutes\<close>.
\<close>

theorem exhausted_classification:
  assumes resolved: "fetcher vars (map_of env pat) w = (Resolved r, w')"
  shows "((\<exists>dets'. loop_body now env fetcher vars pat dets w = (Inr dets', w') \<and>
             map_option status (map_of dets' pat) = Some ''exhausted'') \<longleftrightarrow>
          (errorType_of (rd_errors r) = Some ''RATE_LIMITED'' \<or>
           (rd_errors r = None \<and> remaining_of r = Some 0))) \<and>
         (errorType_of (rd_errors r) = Some ''RATE_LIMITED'' \<or>
           (rd_errors r = None \<and> remaining_of r = Some 0) \<longrightarrow>
          loop_body now env fetcher vars pat dets w =
            (Inr (AList.update pat
                   (Detail_exhausted 0
                      (number_text (dateDiff (resetAt_of r) (Some (now w'))) @ '' minutes''))
                   dets), w') \<and>
          (\<forall>reset. resetAt_of r = Some reset \<longrightarrow>
             number_text (dateDiff (resetAt_of r) (Some (now w'))) =
               Number_toString (truncate_div (reset - now w') 60000)))"
proof (intro conjI impI allI)
  note body = loop_body_Resolved [of fetcher vars env pat w r w' now dets, OF resolved]
  show "(\<exists>dets'. loop_body now env fetcher vars pat dets w = (Inr dets', w') \<and>
             map_option status (map_of dets' pat) = Some ''exhausted'') \<longleftrightarrow>
          (errorType_of (rd_errors r) = Some ''RATE_LIMITED'' \<or>
           (rd_errors r = None \<and> remaining_of r = Some 0))"
    unfolding try_block_exhausted [of r "now w'", symmetric] body
    by (cases "try_block r (now w')") (auto simp: update_conv')
  show "loop_body now env fetcher vars pat dets w =
            (Inr (AList.update pat
                   (Detail_exhausted 0
                      (number_text (dateDiff (resetAt_of r) (Some (now w'))) @ '' minutes''))
                   dets), w')"
    if "errorType_of (rd_errors r) = Some ''RATE_LIMITED'' \<or>
           (rd_errors r = None \<and> remaining_of r = Some 0)"
    using try_block_exhausted_detail [OF that, of "now w'"] body by simp
  show "number_text (dateDiff (resetAt_of r) (Some (now w'))) =
               Number_toString (truncate_div (reset - now w') 60000)"
    if "resetAt_of r = Some reset" for reset
    using that by (simp add: number_text_def dateDiff_def)
qed

theorem exhausted_classification_witness:
  "example_fetcher [] (map_of example_env ''PAT_2'') () = (Resolved (quota_payload 0), ()) \<and>
   rd_errors (quota_payload 0) = None \<and> remaining_of (quota_payload 0) = Some 0 \<and>
   resetAt_of (quota_payload 0) = Some 600000 \<and>
   loop_body example_clock example_env example_fetcher [] ''PAT_2'' [] () =
     (Inr [(''PAT_2'', Detail_exhausted 0 ''10 minutes'')], ()) \<and>
   Number_toString (truncate_div (600000 - example_clock ()) 60000) = ''10''"
proof -
  have resolved: "example_fetcher [] (map_of example_env ''PAT_2'') () =
      (Resolved (quota_payload 0), ())"
    by code_simp
  have e: "rd_errors (quota_payload 0) = None" by code_simp
  have q: "remaining_of (quota_payload 0) = Some 0" by code_simp
  have a: "resetAt_of (quota_payload 0) = Some 600000" by code_simp
  have n: "Number_toString (truncate_div (600000 - example_clock ()) 60000) = ''10''"
    by code_simp
  note th = exhausted_classification
      [of example_fetcher "[]" example_env "''PAT_2''" "()" "quota_payload 0" "()"
          example_clock "[]", OF resolved]
  from th e q have
    body: "loop_body example_clock example_env example_fetcher [] ''PAT_2'' [] () =
            (Inr (AList.update ''PAT_2''
                   (Detail_exhausted 0
                      (number_text (dateDiff (resetAt_of (quota_payload 0))
                         (Some (example_clock ()))) @ '' minutes''))
                   []), ())"
    and mins: "number_text (dateDiff (resetAt_of (quota_payload 0)) (Some (example_clock ()))) =
               Number_toString (truncate_div (600000 - example_clock ()) 60000)"
    using a by simp_all
  from body have "loop_body example_clock example_env example_fetcher [] ''PAT_2'' [] () =
     (Inr [(''PAT_2'', Detail_exhausted 0 ''10 minutes'')], ())"
    unfolding mins n by simp
  with resolved e q a n show ?thesis by (intro conjI)
qed

text \<open>
  Claim C4, as stated, fails: a payload whose remaining quota is zero and whose first error
  has another type than \<open>RATE_LIMITED\<close> is classified \<open>error\<close>, not
  \<open>exhausted\<close>.
\<close>

theorem error_takes_priority_over_zero_quota:
  "remaining_of error_and_zero_quota = Some 0 \<and>
   try_block error_and_zero_quota 0 =
     Inr (Detail_error (Some ''NOT_FOUND'') (Some ''Could not resolve'')) \<and>
   getPATInfo example_clock error_env example_fetcher [] () =
     (Inr \<lparr> validPATs = [], expiredPATs = [], exhaustedPATs = [],
            suspendedPATs = [], errorPATs = [''PAT_1''],
            details = [(''PAT_1'',
              Detail_error (Some ''NOT_FOUND'') (Some ''Could not resolve''))] \<rparr>, ())"
  by code_simp


lemma probe_loop_keys_append:
  assumes "probe_loop now env fetcher vars PATs dets w = (Inr dets', w')"
    and "distinct PATs" and "set PATs \<inter> set (Object_keys dets) = {}"
  shows "Object_keys dets' = Object_keys dets @ PATs"
  using assms
proof (induction PATs arbitrary: dets w)
  case Nil
  then show ?case by simp
next
  case (Cons pat PATs)
  from Cons.prems(1) obtain d1 w1 where
    step: "loop_body now env fetcher vars pat dets w = (Inr d1, w1)" and
    rest: "probe_loop now env fetcher vars PATs d1 w1 = (Inr dets', w')"
    by (auto split: prod.splits sum.splits)
  from loop_body_Inr [OF step] obtain d where d1: "d1 = AList.update pat d dets" ..
  have k1: "Object_keys d1 = Object_keys dets @ [pat]"
    using Cons.prems(3) by (simp add: d1 Object_keys_def update_keys)
  have "set PATs \<inter> set (Object_keys d1) = {}"
    using Cons.prems(2,3) by (auto simp: k1)
  from Cons.IH [OF rest _ this] Cons.prems(2) k1 show ?case by simp
qed

lemma filterPATsByStatus_subseq:
  assumes "probe_loop now env fetcher vars PATs [] w = (Inr dets, w')"
  shows "subseq (filterPATsByStatus dets st) PATs"
proof -
  from probe_loop_subseq [OF assms] have "subseq (Object_keys dets) PATs"
    by (auto simp: Object_keys_def)
  moreover have "subseq (filterPATsByStatus dets st) (Object_keys dets)"
    by (simp add: filterPATsByStatus_def)
  ultimately show ?thesis by (rule subseq_order.trans [rotated])
qed

text \<open>
  Claim C5, amended. In every report the keys of the details map are sorted by credential
  identifier, and each of the five lists holds the credentials of its status in the order
  in which the configuration lists them.
\<close>

theorem report_order:
  assumes run: "getPATInfo now env fetcher vars w = (Inr r, w')"
  shows "sorted (Object_keys (details r)) \<and> distinct (Object_keys (details r)) \<and>
         subseq (validPATs r) (getAllPATs env) \<and>
         subseq (expiredPATs r) (getAllPATs env) \<and>
         subseq (exhaustedPATs r) (getAllPATs env) \<and>
         subseq (suspendedPATs r) (getAllPATs env) \<and>
         subseq (errorPATs r) (getAllPATs env) \<and>
         (distinct (Object_keys env) \<longrightarrow>
            validPATs r =
              filter (\<lambda>pat. map_option status (map_of (details r) pat) = Some ''valid'')
                (getAllPATs env) \<and>
            expiredPATs r =
              filter (\<lambda>pat. map_option status (map_of (details r) pat) = Some ''expired'')
                (getAllPATs env) \<and>
            exhaustedPATs r =
              filter (\<lambda>pat. map_option status (map_of (details r) pat) = Some ''exhausted'')
                (getAllPATs env) \<and>
            suspendedPATs r =
              filter (\<lambda>pat. map_option status (map_of (details r) pat) = Some ''suspended'')
                (getAllPATs env) \<and>
            errorPATs r =
              filter (\<lambda>pat. map_option status (map_of (details r) pat) = Some ''error'')
                (getAllPATs env))"
proof -
  from getPATInfo_Inr [OF run] obtain dets where
    loop: "probe_loop now env fetcher vars (getAllPATs env) [] w = (Inr dets, w')" and
    r: "r = \<lparr> validPATs = filterPATsByStatus dets ''valid'',
                 expiredPATs = filterPATsByStatus dets ''expired'',
                 exhaustedPATs = filterPATsByStatus dets ''exhausted'',
                 suspendedPATs = filterPATsByStatus dets ''suspended'',
                 errorPATs = filterPATsByStatus dets ''error'',
                 details = sortedDetails dets \<rparr>" by blast
  have dist: "distinct (Object_keys dets)"
    using probe_loop_distinct [OF loop] by (simp add: Object_keys_def)
  have keys: "Object_keys (details r) = sort (Object_keys dets)"
    using sortedDetails_keys [OF dist] by (simp add: r)
  have s1: "sorted (Object_keys (details r))" by (simp add: keys)
  have s2: "distinct (Object_keys (details r))" using dist by (simp add: keys)
  note sub = filterPATsByStatus_subseq [OF loop]
  have lists: "filterPATsByStatus dets st =
      filter (\<lambda>pat. map_option status (map_of (details r) pat) = Some st) (getAllPATs env)"
    if "distinct (Object_keys env)" for st
  proof -
    have "distinct (getAllPATs env)" using that by (simp add: getAllPATs_def)
    from probe_loop_keys_append [OF loop this] have "Object_keys dets = getAllPATs env"
      by (simp add: Object_keys_def)
    then show ?thesis
      by (simp add: filterPATsByStatus_def sortedDetails_map_of r)
  qed
  show ?thesis
    using s1 s2 sub lists by (simp add: r)
qed

theorem report_order_witness:
  "getPATInfo example_clock unordered_env example_fetcher [] () =
     (Inr \<lparr> validPATs = [''PAT_2'', ''PAT_10'', ''PAT_1''], expiredPATs = [],
            exhaustedPATs = [], suspendedPATs = [], errorPATs = [],
            details = [(''PAT_1'', Detail_valid (Some 5)),
                       (''PAT_10'', Detail_valid (Some 5)),
                       (''PAT_2'', Detail_valid (Some 5))] \<rparr>, ()) \<and>
   distinct (Object_keys unordered_env) \<and>
   sorted [''PAT_1'', ''PAT_10'', ''PAT_2''] \<and>
   subseq [''PAT_2'', ''PAT_10'', ''PAT_1''] (getAllPATs unordered_env) \<and>
   [''PAT_2'', ''PAT_10'', ''PAT_1''] =
     filter (\<lambda>pat. map_option status
                    (map_of [(''PAT_1'', Detail_valid (Some 5)),
                             (''PAT_10'', Detail_valid (Some 5)),
                             (''PAT_2'', Detail_valid (Some 5))] pat) = Some ''valid'')
       (getAllPATs unordered_env)"
proof -
  have run: "getPATInfo example_clock unordered_env example_fetcher [] () =
     (Inr \<lparr> validPATs = [''PAT_2'', ''PAT_10'', ''PAT_1''], expiredPATs = [],
            exhaustedPATs = [], suspendedPATs = [], errorPATs = [],
            details = [(''PAT_1'', Detail_valid (Some 5)),
                       (''PAT_10'', Detail_valid (Some 5)),
                       (''PAT_2'', Detail_valid (Some 5))] \<rparr>, ())"
    by code_simp
  have dist: "distinct (Object_keys unordered_env)"
    by code_simp
  note th = report_order [OF run]
  from th have "sorted [''PAT_1'', ''PAT_10'', ''PAT_2'']"
    by (simp add: Object_keys_def)
  moreover from th have "subseq [''PAT_2'', ''PAT_10'', ''PAT_1''] (getAllPATs unordered_env)"
    by simp
  moreover from th dist have "[''PAT_2'', ''PAT_10'', ''PAT_1''] =
     filter (\<lambda>pat. map_option status
                    (map_of [(''PAT_1'', Detail_valid (Some 5)),
                             (''PAT_10'', Detail_valid (Some 5)),
                             (''PAT_2'', Detail_valid (Some 5))] pat) = Some ''valid'')
       (getAllPATs unordered_env)"
    by simp
  ultimately show ?thesis using run dist by (intro conjI)
qed

text \<open>
  Claim C5, as stated, fails: with three valid credentials that the environment lists as
  \<open>PAT_2\<close>, \<open>PAT_10\<close>, \<open>PAT_1\<close>, the list \<open>validPATs\<close> has that order, which
  is not the order of the names, while the details map is sorted.
\<close>

theorem lists_follow_configuration_order:
  "getPATInfo example_clock unordered_env example_fetcher [] () =
     (Inr \<lparr> validPATs = [''PAT_2'', ''PAT_10'', ''PAT_1''], expiredPATs = [],
            exhaustedPATs = [], suspendedPATs = [], errorPATs = [],
            details = [(''PAT_1'', Detail_valid (Some 5)),
                       (''PAT_10'', Detail_valid (Some 5)),
                       (''PAT_2'', Detail_valid (Some 5))] \<rparr>, ()) \<and>
   \<not> sorted [''PAT_2'', ''PAT_10'', ''PAT_1'']"
  by code_simp

section \<open>The uptime handler and the cache headers\<close>

lemma rate_limit_text: "Number_toString uptime_RATE_LIMIT_SECONDS = ''300''"
  by code_simp

lemma uptime_try_Inr:
  "\<exists>hdrs bdy. fst (uptime_try retryer request t w) = Inr (hdrs, bdy)"
  by (auto simp: uptime_try_def Let_def split: prod.splits)

lemma uptime_try_down:
  assumes "retryer (uptime_uptimeFetcher request) [] w = (Inl err, w')"
  shows "uptime_try retryer request t w =
     (Inr (if t = ''shields'' \<or> t = ''json''
           then [(''Content-Type'', ''application/json''), (''Cache-Control'', ''no-store'')]
           else [(''Content-Type'', ''text/plain''), (''Cache-Control'', ''no-store'')],
           if t = ''shields'' then Body_shields (shieldsUptimeBadge False)
           else if t = ''json'' then Body_up False
           else Body_text ''false''), w')"
  using assms by (simp add: uptime_try_def Let_def String_of_bool_def)

lemma uptime_try_up:
  assumes "retryer (uptime_uptimeFetcher request) [] w = (Inr v, w')"
  shows "uptime_try retryer request t w =
     (Inr (if t = ''shields'' \<or> t = ''json''
           then [(''Content-Type'', ''application/json''),
                 (''Cache-Control'', ''max-age=0, s-maxage=300'')]
           else [(''Content-Type'', ''text/plain''),
                 (''Cache-Control'', ''max-age=0, s-maxage=300'')],
           if t = ''shields'' then Body_shields (shieldsUptimeBadge True)
           else if t = ''json'' then Body_up True
           else Body_text ''true''), w')"
  using assms by (simp add: uptime_try_def Let_def String_of_bool_def rate_limit_text)

text \<open>
  Claim C8. The shields badge: for \<open>up = true\<close> the message is \<open>up\<close>, the colour
  \<open>brightgreen\<close> and the error flag false; for \<open>up = false\<close> the message is
  \<open>down\<close>, the colour \<open>red\<close> and the error flag false. Every badge the handler
  answers with is the badge of whether the retryer call returned, and its error flag is
  false: an instance that is down never sets it.
\<close>

theorem shieldsUptimeBadge_fields:
  "shieldsUptimeBadge True =
     \<lparr> schemaVersion = 1, label = ''Public Instance'', message = ''up'',
       color = ''brightgreen'', isError = False \<rparr> \<and>
   shieldsUptimeBadge False =
     \<lparr> schemaVersion = 1, label = ''Public Instance'', message = ''down'',
       color = ''red'', isError = False \<rparr> \<and>
   (body (fst (uptime_handler retryer request ev w)) = Body_shields badge \<longrightarrow>
      isError badge = False \<and>
      (\<exists>up. badge = shieldsUptimeBadge up \<and>
            up = (\<exists>v. fst (retryer (uptime_uptimeFetcher request) [] w) = Inr v)))"
proof -
  have "isError badge = False \<and>
      (\<exists>up. badge = shieldsUptimeBadge up \<and>
            up = (\<exists>v. fst (retryer (uptime_uptimeFetcher request) [] w) = Inr v))"
    if b: "body (fst (uptime_handler retryer request ev w)) = Body_shields badge"
  proof (cases "retryer (uptime_uptimeFetcher request) [] w")
    case (Pair res w')
    show ?thesis
    proof (cases res)
      case (Inl err)
      with Pair b uptime_try_down [of retryer request w err w' "uptime_type ev"]
      show ?thesis
        by (auto simp: uptime_handler_def shieldsUptimeBadge_def split: if_splits)
    next
      case (Inr v)
      with Pair b uptime_try_up [of retryer request w v w' "uptime_type ev"]
      show ?thesis
        by (auto simp: uptime_handler_def shieldsUptimeBadge_def split: if_splits)
    qed
  qed
  then show ?thesis by (simp add: shieldsUptimeBadge_def)
qed

theorem shieldsUptimeBadge_fields_witness:
  "body (fst (uptime_handler (single_retryer ''c'') example_request shields_event ())) =
     Body_shields (shieldsUptimeBadge False) \<and>
   isError (shieldsUptimeBadge False) = False \<and>
   message (shieldsUptimeBadge False) = ''down'' \<and>
   color (shieldsUptimeBadge False) = ''red''"
proof -
  have b: "body (fst (uptime_handler (single_retryer ''c'') example_request shields_event ())) =
     Body_shields (shieldsUptimeBadge False)"
    by code_simp
  from shieldsUptimeBadge_fields [of "single_retryer ''c''" example_request shields_event "()"
      "shieldsUptimeBadge False"] b
  show ?thesis by simp
qed

lemma uptime_handler_down:
  assumes "retryer (uptime_uptimeFetcher request) [] w = (Inl err, w')"
  shows "uptime_handler retryer request ev w =
      (\<lparr> statusCode = 200,
        headers = (if uptime_type ev = ''shields'' \<or> uptime_type ev = ''json''
           then [(''Content-Type'', ''application/json''), (''Cache-Control'', ''no-store'')]
           else [(''Content-Type'', ''text/plain''), (''Cache-Control'', ''no-store'')]),
        body = (if uptime_type ev = ''shields'' then Body_shields (shieldsUptimeBadge False)
           else if uptime_type ev = ''json'' then Body_up False
           else Body_text ''false'') \<rparr>, w')"
  using uptime_try_down [of retryer request w err w' "uptime_type ev"] assms
  by (simp add: uptime_handler_def)

lemma uptime_handler_up:
  assumes "retryer (uptime_uptimeFetcher request) [] w = (Inr v, w')"
  shows "uptime_handler retryer request ev w =
      (\<lparr> statusCode = 200,
        headers = (if uptime_type ev = ''shields'' \<or> uptime_type ev = ''json''
           then [(''Content-Type'', ''application/json''),
                 (''Cache-Control'', ''max-age=0, s-maxage=300'')]
           else [(''Content-Type'', ''text/plain''),
                 (''Cache-Control'', ''max-age=0, s-maxage=300'')]),
        body = (if uptime_type ev = ''shields'' then Body_shields (shieldsUptimeBadge True)
           else if uptime_type ev = ''json'' then Body_up True
           else Body_text ''true'') \<rparr>, w')"
  using uptime_try_up [of retryer request w v w' "uptime_type ev"] assms
  by (simp add: uptime_handler_def)

text \<open>
  Claim C7. Whatever the retryer call throws, the uptime handler does not propagate it: its
  response is not the internal-error response, the value it reports is \<open>false\<close> in the
  requested shape, and the response is the same for every error thrown (exhausted,
  expired, suspended or anything else).
\<close>

theorem uptime_handler_reports_down:
  fixes retryer :: "('w, 'r) retryer"
  assumes "retryer (uptime_uptimeFetcher request) [] w = (Inl err, w')"
  shows "snd (uptime_handler retryer request ev w) = w' \<and>
         statusCode (fst (uptime_handler retryer request ev w)) \<noteq> 500 \<and>
         body (fst (uptime_handler retryer request ev w)) =
           (if uptime_type ev = ''shields'' then Body_shields (shieldsUptimeBadge False)
            else if uptime_type ev = ''json'' then Body_up False
            else Body_text ''false'') \<and>
         (\<forall>(retryer2 :: ('w, 'r) retryer) w2 err2 w2'.
            retryer2 (uptime_uptimeFetcher request) [] w2 = (Inl err2, w2') \<longrightarrow>
            fst (uptime_handler retryer2 request ev w2) =
            fst (uptime_handler retryer request ev w))"
proof (intro conjI allI impI)
  note down = uptime_handler_down [of retryer request w err w' ev, OF assms]
  show "snd (uptime_handler retryer request ev w) = w'"
    by (simp add: down)
  show "statusCode (fst (uptime_handler retryer request ev w)) \<noteq> 500"
    by (simp add: down)
  show "body (fst (uptime_handler retryer request ev w)) =
           (if uptime_type ev = ''shields'' then Body_shields (shieldsUptimeBadge False)
            else if uptime_type ev = ''json'' then Body_up False
            else Body_text ''false'')"
    by (simp add: down)
  show "fst (uptime_handler retryer2 request ev w2) =
            fst (uptime_handler retryer request ev w)"
    if "retryer2 (uptime_uptimeFetcher request) [] w2 = (Inl err2, w2')"
    for retryer2 :: "('w, 'r) retryer" and w2 err2 w2'
    using uptime_handler_down [of retryer2 request w2 err2 w2' ev] that
    by (simp add: down)
qed

theorem uptime_handler_reports_down_witness:
  "single_retryer ''c'' (uptime_uptimeFetcher example_request) [] () =
     (Inl (rejection ''Bad credentials''), ()) \<and>
   single_retryer ''s'' (uptime_uptimeFetcher example_request) [] () =
     (Inl (rejection ''Sorry. Your account was suspended.''), ()) \<and>
   statusCode (fst (uptime_handler (single_retryer ''c'') example_request json_event ())) \<noteq> 500 \<and>
   body (fst (uptime_handler (single_retryer ''c'') example_request json_event ())) =
     Body_up False \<and>
   fst (uptime_handler (single_retryer ''s'') example_request json_event ()) =
   fst (uptime_handler (single_retryer ''c'') example_request json_event ())"
proof -
  have c: "single_retryer ''c'' (uptime_uptimeFetcher example_request) [] () =
     (Inl (rejection ''Bad credentials''), ())"
    by code_simp
  have s: "single_retryer ''s'' (uptime_uptimeFetcher example_request) [] () =
     (Inl (rejection ''Sorry. Your account was suspended.''), ())"
    by code_simp
  have t: "uptime_type json_event = ''json''"
    by code_simp
  note down = uptime_handler_reports_down
         [of "single_retryer ''c''" example_request "()" "rejection ''Bad credentials''" "()"
             json_event, OF c]
  from down have
    st: "statusCode (fst (uptime_handler (single_retryer ''c'') example_request json_event ())) \<noteq> 500"
    by (rule conjunct1 [OF conjunct2])
  from down have
    "body (fst (uptime_handler (single_retryer ''c'') example_request json_event ())) =
       (if uptime_type json_event = ''shields'' then Body_shields (shieldsUptimeBadge False)
        else if uptime_type json_event = ''json'' then Body_up False
        else Body_text ''false'')"
    by (rule conjunct1 [OF conjunct2 [OF conjunct2]])
  then have
    bd: "body (fst (uptime_handler (single_retryer ''c'') example_request json_event ())) =
       Body_up False"
    by (simp add: t)
  from down s have
    eq: "fst (uptime_handler (single_retryer ''s'') example_request json_event ()) =
     fst (uptime_handler (single_retryer ''c'') example_request json_event ())"
    by blast
  from c s st bd eq show ?thesis by (intro conjI)
qed


lemma uptime_type_shields:
  "uptime_type ev = ''shields'' \<longleftrightarrow>
   map_option toLowerCase (map_of (queryStringParameters ev) ''type'') = Some ''shields''"
  by (auto simp: uptime_type_def toLowerCase_def split: option.splits)

lemma uptime_type_json:
  "uptime_type ev = ''json'' \<longleftrightarrow>
   map_option toLowerCase (map_of (queryStringParameters ev) ''type'') = Some ''json''"
  by (auto simp: uptime_type_def toLowerCase_def split: option.splits)

text \<open>
  Claim C10. The uptime endpoint reports the down state with status code 200: when the
  retryer call throws, the handler answers 200 with the body of the output shape that the
  request's \<open>type\<close> parameter selects: the badge for \<open>shields\<close>, \<open>{ up: false }\<close> for
  \<open>json\<close> (in any spelling of upper and lower case), and the text \<open>false\<close> for any
  other, an empty or a missing parameter. Status code 500 is answered exactly when the body
  of the outer \<open>try\<close> throws, and none of its statements outside the retryer's own
  \<open>try\<close> does: the status code is 200 in every run.
\<close>

theorem uptime_handler_status_code:
  fixes retryer :: "('w, 'r) retryer"
  shows "(retryer (uptime_uptimeFetcher request) [] w = (Inl err, w') \<longrightarrow>
           uptime_handler retryer request ev w =
             (if map_option toLowerCase (map_of (queryStringParameters ev) ''type'') =
                   Some ''shields''
              then \<lparr> statusCode = 200,
                     headers = [(''Content-Type'', ''application/json''),
                                (''Cache-Control'', ''no-store'')],
                     body = Body_shields
                              \<lparr> schemaVersion = 1, label = ''Public Instance'',
                                message = ''down'', color = ''red'', isError = False \<rparr> \<rparr>
              else if map_option toLowerCase (map_of (queryStringParameters ev) ''type'') =
                   Some ''json''
              then \<lparr> statusCode = 200,
                     headers = [(''Content-Type'', ''application/json''),
                                (''Cache-Control'', ''no-store'')],
                     body = Body_up False \<rparr>
              else \<lparr> statusCode = 200,
                     headers = [(''Content-Type'', ''text/plain''),
                                (''Cache-Control'', ''no-store'')],
                     body = Body_text ''false'' \<rparr>, w')) \<and>
         (statusCode (fst (uptime_handler retryer request ev w)) = 500) =
           (\<exists>e. fst (uptime_try retryer request (uptime_type ev) w) = Inl e) \<and>
         statusCode (fst (uptime_handler retryer request ev w)) = 200"
proof (intro conjI impI)
  assume "retryer (uptime_uptimeFetcher request) [] w = (Inl err, w')"
  from uptime_handler_down [of retryer request w err w' ev, OF this]
  show "uptime_handler retryer request ev w =
             (if map_option toLowerCase (map_of (queryStringParameters ev) ''type'') =
                   Some ''shields''
              then \<lparr> statusCode = 200,
                     headers = [(''Content-Type'', ''application/json''),
                                (''Cache-Control'', ''no-store'')],
                     body = Body_shields
                              \<lparr> schemaVersion = 1, label = ''Public Instance'',
                                message = ''down'', color = ''red'', isError = False \<rparr> \<rparr>
              else if map_option toLowerCase (map_of (queryStringParameters ev) ''type'') =
                   Some ''json''
              then \<lparr> statusCode = 200,
                     headers = [(''Content-Type'', ''application/json''),
                                (''Cache-Control'', ''no-store'')],
                     body = Body_up False \<rparr>
              else \<lparr> statusCode = 200,
                     headers = [(''Content-Type'', ''text/plain''),
                                (''Cache-Control'', ''no-store'')],
                     body = Body_text ''false'' \<rparr>, w')"
    unfolding uptime_type_shields uptime_type_json
    by (simp add: shieldsUptimeBadge_def)
next
  obtain hdrs bdy where t: "fst (uptime_try retryer request (uptime_type ev) w) = Inr (hdrs, bdy)"
    using uptime_try_Inr [of retryer request "uptime_type ev" w] by blast
  then have ok: "statusCode (fst (uptime_handler retryer request ev w)) = 200"
    by (cases "uptime_try retryer request (uptime_type ev) w") (simp add: uptime_handler_def)
  show "statusCode (fst (uptime_handler retryer request ev w)) = 200" by (rule ok)
  show "(statusCode (fst (uptime_handler retryer request ev w)) = 500) =
           (\<exists>e. fst (uptime_try retryer request (uptime_type ev) w) = Inl e)"
    using ok t by simp
qed

theorem uptime_handler_status_code_witness:
  "single_retryer ''c'' (uptime_uptimeFetcher example_request) [] () =
     (Inl (rejection ''Bad credentials''), ()) \<and>
   uptime_handler (single_retryer ''c'') example_request shields_event () =
     (\<lparr> statusCode = 200,
        headers = [(''Content-Type'', ''application/json''), (''Cache-Control'', ''no-store'')],
        body = Body_shields \<lparr> schemaVersion = 1, label = ''Public Instance'',
                 message = ''down'', color = ''red'', isError = False \<rparr> \<rparr>, ()) \<and>
   uptime_handler (single_retryer ''c'') example_request json_event () =
     (\<lparr> statusCode = 200,
        headers = [(''Content-Type'', ''application/json''), (''Cache-Control'', ''no-store'')],
        body = Body_up False \<rparr>, ()) \<and>
   uptime_handler (single_retryer ''c'') example_request upper_json_event () =
     (\<lparr> statusCode = 200,
        headers = [(''Content-Type'', ''application/json''), (''Cache-Control'', ''no-store'')],
        body = Body_up False \<rparr>, ()) \<and>
   uptime_handler (single_retryer ''c'') example_request xml_event () =
     (\<lparr> statusCode = 200,
        headers = [(''Content-Type'', ''text/plain''), (''Cache-Control'', ''no-store'')],
        body = Body_text ''false'' \<rparr>, ()) \<and>
   uptime_handler (single_retryer ''c'') example_request plain_event () =
     (\<lparr> statusCode = 200,
        headers = [(''Content-Type'', ''text/plain''), (''Cache-Control'', ''no-store'')],
        body = Body_text ''false'' \<rparr>, ())"
proof -
  have c: "single_retryer ''c'' (uptime_uptimeFetcher example_request) [] () =
     (Inl (rejection ''Bad credentials''), ())"
    by code_simp
  have t1: "map_option toLowerCase (map_of (queryStringParameters shields_event) ''type'') =
      Some ''shields''"
    by code_simp
  have t2: "map_option toLowerCase (map_of (queryStringParameters json_event) ''type'') =
      Some ''json''"
    by code_simp
  have t3: "map_option toLowerCase (map_of (queryStringParameters upper_json_event) ''type'') =
      Some ''json''"
    by code_simp
  have t4: "map_option toLowerCase (map_of (queryStringParameters xml_event) ''type'') =
      Some ''xml''"
    by code_simp
  have t5: "map_option toLowerCase (map_of (queryStringParameters plain_event) ''type'') = None"
    by code_simp
  note th = uptime_handler_status_code
         [of "single_retryer ''c''" example_request "()" "rejection ''Bad credentials''" "()"]
  have r1: "uptime_handler (single_retryer ''c'') example_request shields_event () =
     (\<lparr> statusCode = 200,
        headers = [(''Content-Type'', ''application/json''), (''Cache-Control'', ''no-store'')],
        body = Body_shields \<lparr> schemaVersion = 1, label = ''Public Instance'',
                 message = ''down'', color = ''red'', isError = False \<rparr> \<rparr>, ())"
    using th [of shields_event] c unfolding t1 by simp
  have r2: "uptime_handler (single_retryer ''c'') example_request json_event () =
     (\<lparr> statusCode = 200,
        headers = [(''Content-Type'', ''application/json''), (''Cache-Control'', ''no-store'')],
        body = Body_up False \<rparr>, ())"
    using th [of json_event] c unfolding t2 by simp
  have r3: "uptime_handler (single_retryer ''c'') example_request upper_json_event () =
     (\<lparr> statusCode = 200,
        headers = [(''Content-Type'', ''application/json''), (''Cache-Control'', ''no-store'')],
        body = Body_up False \<rparr>, ())"
    using th [of upper_json_event] c unfolding t3 by simp
  have r4: "uptime_handler (single_retryer ''c'') example_request xml_event () =
     (\<lparr> statusCode = 200,
        headers = [(''Content-Type'', ''text/plain''), (''Cache-Control'', ''no-store'')],
        body = Body_text ''false'' \<rparr>, ())"
    using th [of xml_event] c unfolding t4 by simp
  have r5: "uptime_handler (single_retryer ''c'') example_request plain_event () =
     (\<lparr> statusCode = 200,
        headers = [(''Content-Type'', ''text/plain''), (''Cache-Control'', ''no-store'')],
        body = Body_text ''false'' \<rparr>, ())"
    using th [of plain_event] c unfolding t5 by simp
  from c r1 r2 r3 r4 r5 show ?thesis by (intro conjI)
qed

text \<open>
  Claim C9, as stated, fails for the uptime endpoint: with a retryer call that throws, the
  handler produces a normal response (status code 200, \<open>{ up: false }\<close>) whose
  \<open>Cache-Control\<close> is \<open>no-store\<close>.
\<close>

theorem uptime_down_not_cached:
  "statusCode (fst (uptime_handler (single_retryer ''c'') example_request json_event ())) = 200 \<and>
   body (fst (uptime_handler (single_retryer ''c'') example_request json_event ())) =
     Body_up False \<and>
   map_of (headers (fst (uptime_handler (single_retryer ''c'') example_request json_event ())))
     ''Cache-Control'' = Some ''no-store''"
  by code_simp

text \<open>
  Claim C9, amended. The PAT-info endpoint answers a report with status code 200 and
  \<open>Cache-Control: max-age=0, s-maxage=300\<close>, and an internal failure with status code
  500 and \<open>Cache-Control: no-store\<close>. The uptime endpoint answers with status code 200
  in both cases, with \<open>max-age=0, s-maxage=300\<close> when the retryer call returned and with
  \<open>no-store\<close> when it threw.
\<close>

theorem cache_control_of_endpoints:
  fixes retryer :: "('v, 'r) retryer"
  shows
  "(case getPATInfo now env (pat_info_uptimeFetcher request) [] w of
      (Inr r, w') \<Rightarrow>
        statusCode (fst (pat_info_handler now env request w)) = 200 \<and>
        map_of (headers (fst (pat_info_handler now env request w))) ''Cache-Control'' =
          Some ''max-age=0, s-maxage=300''
    | (Inl err, w') \<Rightarrow>
        statusCode (fst (pat_info_handler now env request w)) = 500 \<and>
        map_of (headers (fst (pat_info_handler now env request w))) ''Cache-Control'' =
          Some ''no-store'') \<and>
   (case retryer (uptime_uptimeFetcher request2) [] v of
      (Inr r, v') \<Rightarrow>
        statusCode (fst (uptime_handler retryer request2 ev v)) = 200 \<and>
        map_of (headers (fst (uptime_handler retryer request2 ev v))) ''Cache-Control'' =
          Some ''max-age=0, s-maxage=300''
    | (Inl err, v') \<Rightarrow>
        statusCode (fst (uptime_handler retryer request2 ev v)) = 200 \<and>
        map_of (headers (fst (uptime_handler retryer request2 ev v))) ''Cache-Control'' =
          Some ''no-store'')"
proof (rule conjI)
  show "case getPATInfo now env (pat_info_uptimeFetcher request) [] w of
      (Inr r, w') \<Rightarrow>
        statusCode (fst (pat_info_handler now env request w)) = 200 \<and>
        map_of (headers (fst (pat_info_handler now env request w))) ''Cache-Control'' =
          Some ''max-age=0, s-maxage=300''
    | (Inl err, w') \<Rightarrow>
        statusCode (fst (pat_info_handler now env request w)) = 500 \<and>
        map_of (headers (fst (pat_info_handler now env request w))) ''Cache-Control'' =
          Some ''no-store''"
  proof (cases "getPATInfo now env (pat_info_uptimeFetcher request) [] w")
    case (Pair res w')
    then show ?thesis
      using pat_info_handler_Inr [of now env request w _ w']
        pat_info_handler_Inl [of now env request w _ w']
      by (cases res) simp_all
  qed
  show "case retryer (uptime_uptimeFetcher request2) [] v of
      (Inr r, v') \<Rightarrow>
        statusCode (fst (uptime_handler retryer request2 ev v)) = 200 \<and>
        map_of (headers (fst (uptime_handler retryer request2 ev v))) ''Cache-Control'' =
          Some ''max-age=0, s-maxage=300''
    | (Inl err, v') \<Rightarrow>
        statusCode (fst (uptime_handler retryer request2 ev v)) = 200 \<and>
        map_of (headers (fst (uptime_handler retryer request2 ev v))) ''Cache-Control'' =
          Some ''no-store''"
  proof (cases "retryer (uptime_uptimeFetcher request2) [] v")
    case (Pair res v')
    then show ?thesis
      using uptime_handler_up [of retryer request2 v _ v' ev]
        uptime_handler_down [of retryer request2 v _ v' ev]
      by (cases res) simp_all
  qed
qed


section \<open>The Retryer of the specification\<close>




end
